theory Spec2Isabelle
  imports Complex_Main "HOL-Library.Sublist"
begin

section \<open>Values of the parsed documents\<close>

text \<open>
  Both scripts work on what \<^verbatim>\<open>yaml.safe_load\<close> and \<^verbatim>\<open>json.load\<close> return: untyped
  Python values. A dictionary is kept as an association list in insertion order
  (\<^verbatim>\<open>list(bundles.keys())\<close> walks it in that order); a lookup takes the first entry
  of a key. A float is a rational, an infinity or a NaN: only its truth value and its
  equality with other numbers are ever used.
\<close>

datatype pyfloat = FFin rat | FInf bool | FNan

datatype pyval =
    VNone
  | VBool bool
  | VInt int
  | VFloat pyfloat
  | VStr string
  | VList "pyval list"
  | VDict "(string \<times> pyval) list"

datatype py_exn =
    AttributeError
  | TypeError
  | KeyError
  | OSError
  | UnicodeDecodeError
  | UnicodeEncodeError
  | RecursionError
  | CsvError
  | JSONDecodeError
  | YAMLError
  | OtherError
  | SystemExit nat

text \<open>Python's truth value of an object: what \<^verbatim>\<open>not x\<close> and \<^verbatim>\<open>if x\<close> test.\<close>

fun truthy :: "pyval \<Rightarrow> bool" where
  "truthy VNone = False"
| "truthy (VBool b) = b"
| "truthy (VInt i) = (i \<noteq> 0)"
| "truthy (VFloat f) = (f \<noteq> FFin 0)"
| "truthy (VStr s) = (s \<noteq> [])"
| "truthy (VList xs) = (xs \<noteq> [])"
| "truthy (VDict kvs) = (kvs \<noteq> [])"

text \<open>Python's \<^verbatim>\<open>==\<close>: numbers (booleans among them) compare by value, a NaN equals
  nothing, lists compare element by element, dictionaries entry by entry whatever
  their order, and values of different kinds differ.\<close>

fun float_eq :: "pyfloat \<Rightarrow> pyfloat \<Rightarrow> bool" where
  "float_eq (FFin a) (FFin b) = (a = b)"
| "float_eq (FInf a) (FInf b) = (a = b)"
| "float_eq _ _ = False"

fun num_of :: "pyval \<Rightarrow> pyfloat option" where
  "num_of (VBool b) = Some (FFin (if b then 1 else 0))"
| "num_of (VInt i) = Some (FFin (of_int i))"
| "num_of (VFloat f) = Some f"
| "num_of _ = None"

fun py_eq :: "pyval \<Rightarrow> pyval \<Rightarrow> bool" where
  "py_eq VNone b = (b = VNone)"
| "py_eq (VStr s) b = (b = VStr s)"
| "py_eq (VList xs) b =
     (case b of VList ys \<Rightarrow> list_all2 py_eq xs ys | _ \<Rightarrow> False)"
| "py_eq (VDict kvs) b =
     (case b of
        VDict kws \<Rightarrow>
          length kvs = length kws \<and>
          list_all (\<lambda>kv. case map_of kws (fst kv) of
                             None \<Rightarrow> False
                           | Some w \<Rightarrow> py_eq (snd kv) w) kvs
      | _ \<Rightarrow> False)"
| "py_eq a b =
     (case (num_of a, num_of b) of
        (Some x, Some y) \<Rightarrow> float_eq x y
      | _ \<Rightarrow> False)"

text \<open>\<^verbatim>\<open>d.get(key, default)\<close>: only a dictionary has the method.\<close>

fun py_get :: "pyval \<Rightarrow> string \<Rightarrow> pyval \<Rightarrow> py_exn + pyval" where
  "py_get (VDict kvs) k d = Inr (case map_of kvs k of None \<Rightarrow> d | Some v \<Rightarrow> v)"
| "py_get _ k d = Inl AttributeError"



text \<open>\<^verbatim>\<open>for x in v\<close>: the elements of a list, the keys of a dictionary, the characters
  of a string.\<close>

fun py_iter :: "pyval \<Rightarrow> py_exn + pyval list" where
  "py_iter (VList xs) = Inr xs"
| "py_iter (VDict kvs) = Inr (map (\<lambda>kv. VStr (fst kv)) kvs)"
| "py_iter (VStr s) = Inr (map (\<lambda>c. VStr [c]) s)"
| "py_iter _ = Inl TypeError"




section \<open>Printing and raising\<close>

text \<open>
  Every \<^verbatim>\<open>print\<close> of the scripts is one message, carrying the values its f-string
  formats. A run is the list of messages printed so far together with either the
  exception that ended it or the value returned.
\<close>

datatype path = Path string | Join path string

datatype msg =
    ConfigNotFound string
  | InvalidYaml string
  | ManifestNotFound path
  | ManifestLoaded path
  | InvalidJson
  | NoItems
  | CsvNotFound path
  | RowCountMismatch pyval pyval int
  | CsvVerified pyval int
  | CsvReadError path py_exn
  | NoChittyId
  | ChittyIdPresent pyval
  | NoSchemaVersion
  | SchemaMismatch pyval pyval
  | SchemaVersionOk pyval
  | Banner string string
  | BundleNotFound string
  | CannotContinue
  | AllPassed string
  | SomeFailed
  | TokenNotSet
  | TokenTooShort
  | TokenSet
  | NoExportBundles
  | CheckingBundle string
  | MissingName
  | NameOk pyval
  | MissingSchemaVersion
  | BundleSchemaOk pyval
  | NoDatabases
  | DatabasesConfigured nat
  | PlaceholderUrl pyval pyval
  | UrlConfigured pyval
  | TodoSummary nat

type_synonym 'a run = "msg list \<times> (py_exn + 'a)"

definition ret :: "'a \<Rightarrow> 'a run" where
  "ret x = ([], Inr x)"

definition throw :: "py_exn \<Rightarrow> 'a run" where
  "throw e = ([], Inl e)"

definition emit :: "msg \<Rightarrow> unit run" where
  "emit m = ([m], Inr ())"

definition lift :: "py_exn + 'a \<Rightarrow> 'a run" where
  "lift r = ([], r)"

definition bnd :: "'a run \<Rightarrow> ('a \<Rightarrow> 'b run) \<Rightarrow> 'b run" where
  "bnd m f =
     (case snd m of
        Inl e \<Rightarrow> (fst m, Inl e)
      | Inr x \<Rightarrow> (fst m @ fst (f x), snd (f x)))"

definition say :: "msg \<Rightarrow> 'a run \<Rightarrow> 'a run" where
  "say m k = bnd (emit m) (\<lambda>_. k)"

text \<open>
  A \<^verbatim>\<open>print\<close> can itself raise: standard output refuses a text it cannot encode (a
  string of the manifest that holds a lone surrogate, written \<^verbatim>\<open>\ud800\<close> there, raises
  \<^verbatim>\<open>UnicodeEncodeError\<close>), and a stream can fail. Where no handler is around the
  \<^verbatim>\<open>print\<close>, the exception ends the run with a traceback: those runs are not
  described, and \<open>say\<close> always prints. In the one place where a handler is around it,
  the \<^verbatim>\<open>try\<close> block of \<^verbatim>\<open>verify_csv_files\<close>, the exception becomes a result of the
  function; there the environment is asked whether the message prints: a \<open>printer\<close>
  gives the exception the \<^verbatim>\<open>print\<close> of a message raises, if any.
\<close>

type_synonym printer = "msg \<Rightarrow> py_exn option"

definition try_print :: "printer \<Rightarrow> msg \<Rightarrow> unit run" where
  "try_print out m = (case out m of None \<Rightarrow> emit m | Some e \<Rightarrow> throw e)"

text \<open>\<^verbatim>\<open>except Exception\<close> catches every exception but those that end the
  interpreter; the handler runs after what the block has printed.\<close>

fun is_exception :: "py_exn \<Rightarrow> bool" where
  "is_exception (SystemExit n) = False"
| "is_exception _ = True"

definition except_Exception :: "'a run \<Rightarrow> (py_exn \<Rightarrow> 'a run) \<Rightarrow> 'a run" where
  "except_Exception m handler =
     (case snd m of
        Inr x \<Rightarrow> m
      | Inl e \<Rightarrow>
          if is_exception e then (fst m @ fst (handler e), snd (handler e)) else m)"

section \<open>The file system and the parsers\<close>

text \<open>
  A path is kept as the expression the scripts build it with: \<^verbatim>\<open>Path(s)\<close> and
  \<^verbatim>\<open>p / s\<close>. The file system answers for each path one of five things.
  \<^item> \<open>Absent\<close>: nothing is there; \<^verbatim>\<open>exists()\<close> is false and \<^verbatim>\<open>open\<close> raises
    \<^verbatim>\<open>FileNotFoundError\<close>.
  \<^item> \<open>Inaccessible\<close>: the path cannot be looked up (a name longer than the system
    takes, a directory on the way that may not be searched); \<^verbatim>\<open>exists()\<close> itself
    raises \<^verbatim>\<open>OSError\<close>, and so does \<^verbatim>\<open>open\<close>.
  \<^item> \<open>Unreadable\<close>: something is there that cannot be opened (a directory, a file
    without read permission); \<^verbatim>\<open>exists()\<close> is true and \<^verbatim>\<open>open\<close> raises \<^verbatim>\<open>OSError\<close>.
  \<^item> \<open>Undecodable\<close>: a file that opens and whose bytes are no text in the encoding;
    reading it raises \<^verbatim>\<open>UnicodeDecodeError\<close>.
  \<^item> \<open>Text\<close>: a text file, with its decoded content.

  \<^verbatim>\<open>json.load\<close> and \<^verbatim>\<open>yaml.safe_load\<close> are parameters: functions from the text
  to the parsed value or the exception raised.
\<close>

datatype fs_entry = Absent | Inaccessible | Unreadable | Undecodable | Text string

type_synonym filesystem = "path \<Rightarrow> fs_entry"



fun path_join :: "path \<Rightarrow> pyval \<Rightarrow> py_exn + path" where
  "path_join p (VStr s) = Inr (Join p s)"
| "path_join p _ = Inl TypeError"

subsection \<open>Iterating over a file opened in text mode\<close>

text \<open>
  \<^verbatim>\<open>open(csv_path, "r")\<close> reads with universal newlines: a carriage return followed
  by a line feed, and a lone carriage return, arrive as one line feed, and iterating
  yields the lines with their terminator, the last one without when the file does not
  end in a newline.
\<close>

definition LF :: char where
  "LF = CHR 0x0A"

definition CR :: char where
  "CR = CHR 0x0D"

fun file_lines :: "string \<Rightarrow> string \<Rightarrow> string list" where
  "file_lines cur [] = (if cur = [] then [] else [cur])"
| "file_lines cur [c] = (if c = CR \<or> c = LF then [cur @ [LF]] else [cur @ [c]])"
| "file_lines cur (c # d # ds) =
     (if c = CR then
        (if d = LF then (cur @ [LF]) # file_lines [] ds
         else (cur @ [LF]) # file_lines [] (d # ds))
      else if c = LF then (cur @ [LF]) # file_lines [] (d # ds)
      else file_lines (cur @ [c]) (d # ds))"

subsection \<open>csv.reader\<close>

text \<open>
  The reader of Python's \<^verbatim>\<open>csv\<close> module with the dialect \<^verbatim>\<open>csv.reader(f)\<close> gets
  by default (\<^verbatim>\<open>excel\<close>: delimiter comma, the double quote as quote character,
  doubled quotes, no escape character, not strict), after the state machine of CPython's
  \<^verbatim>\<open>Modules/_csv.c\<close> (3.11 and later, where a NUL is an ordinary character). The two
  escape states cannot be reached without an escape character and are left out. The
  event \<open>None\<close> is the end of a line (\<^verbatim>\<open>EOL\<close>).
\<close>

datatype parser_state =
    START_RECORD
  | START_FIELD
  | IN_FIELD
  | IN_QUOTED_FIELD
  | QUOTE_IN_QUOTED_FIELD
  | EAT_CRNL

record reader =
  state :: parser_state
  record_fields :: "string list"
  field :: string

definition field_limit :: nat where
  "field_limit = 131072"

definition delimiter :: char where
  "delimiter = CHR '',''"

definition quotechar :: char where
  "quotechar = CHR 0x22"

definition parse_reset :: reader where
  "parse_reset = \<lparr>state = START_RECORD, record_fields = [], field = []\<rparr>"

definition parse_save_field :: "reader \<Rightarrow> reader" where
  "parse_save_field r = r\<lparr>record_fields := record_fields r @ [field r], field := []\<rparr>"

definition parse_add_char :: "reader \<Rightarrow> char \<Rightarrow> py_exn + reader" where
  "parse_add_char r c =
     (if field_limit \<le> length (field r) then Inl CsvError
      else Inr (r\<lparr>field := field r @ [c]\<rparr>))"

text \<open>The end of a record, at a newline character or at the end of the line: the
  field is saved and the rest of the line terminator, if any, is to be eaten.\<close>

definition end_of_record :: "reader \<Rightarrow> char option \<Rightarrow> reader" where
  "end_of_record r c =
     (parse_save_field r)\<lparr>state := (if c = None then START_RECORD else EAT_CRNL)\<rparr>"

definition add_char_to :: "reader \<Rightarrow> char \<Rightarrow> parser_state \<Rightarrow> py_exn + reader" where
  "add_char_to r ch s =
     (case parse_add_char r ch of
        Inl e \<Rightarrow> Inl e
      | Inr r' \<Rightarrow> Inr (r'\<lparr>state := s\<rparr>))"

text \<open>The case \<open>START_FIELD\<close>, which the case \<open>START_RECORD\<close> falls through to.\<close>

definition start_field :: "reader \<Rightarrow> char option \<Rightarrow> py_exn + reader" where
  "start_field r c =
     (case c of
        None \<Rightarrow> Inr (end_of_record r c)
      | Some ch \<Rightarrow>
          if ch = LF \<or> ch = CR then Inr (end_of_record r c)
          else if ch = quotechar then Inr (r\<lparr>state := IN_QUOTED_FIELD\<rparr>)
          else if ch = delimiter then Inr (parse_save_field r)
          else add_char_to r ch IN_FIELD)"

definition parse_process_char :: "reader \<Rightarrow> char option \<Rightarrow> py_exn + reader" where
  "parse_process_char r c =
     (case state r of
        START_RECORD \<Rightarrow>
          (case c of
             None \<Rightarrow> Inr r
           | Some ch \<Rightarrow>
               if ch = LF \<or> ch = CR then Inr (r\<lparr>state := EAT_CRNL\<rparr>)
               else start_field (r\<lparr>state := START_FIELD\<rparr>) c)
      | START_FIELD \<Rightarrow> start_field r c
      | IN_FIELD \<Rightarrow>
          (case c of
             None \<Rightarrow> Inr (end_of_record r c)
           | Some ch \<Rightarrow>
               if ch = LF \<or> ch = CR then Inr (end_of_record r c)
               else if ch = delimiter then Inr ((parse_save_field r)\<lparr>state := START_FIELD\<rparr>)
               else parse_add_char r ch)
      | IN_QUOTED_FIELD \<Rightarrow>
          (case c of
             None \<Rightarrow> Inr r
           | Some ch \<Rightarrow>
               if ch = quotechar then Inr (r\<lparr>state := QUOTE_IN_QUOTED_FIELD\<rparr>)
               else parse_add_char r ch)
      | QUOTE_IN_QUOTED_FIELD \<Rightarrow>
          (case c of
             None \<Rightarrow> Inr (end_of_record r c)
           | Some ch \<Rightarrow>
               if ch = quotechar then add_char_to r ch IN_QUOTED_FIELD
               else if ch = delimiter then Inr ((parse_save_field r)\<lparr>state := START_FIELD\<rparr>)
               else if ch = LF \<or> ch = CR then Inr (end_of_record r c)
               else add_char_to r ch IN_FIELD)
      | EAT_CRNL \<Rightarrow>
          (case c of
             None \<Rightarrow> Inr (r\<lparr>state := START_RECORD\<rparr>)
           | Some ch \<Rightarrow> if ch = LF \<or> ch = CR then Inr r else Inl CsvError))"

text \<open>One line of the input: its characters, then the end-of-line event.\<close>

fun process_line :: "reader \<Rightarrow> string \<Rightarrow> py_exn + reader" where
  "process_line r [] = parse_process_char r None"
| "process_line r (c # cs) =
     (case parse_process_char r (Some c) of
        Inl e \<Rightarrow> Inl e
      | Inr r' \<Rightarrow> process_line r' cs)"

text \<open>
  \<^verbatim>\<open>list(reader)\<close>: \<^verbatim>\<open>Reader_iternext\<close> resets the parser, then feeds lines until
  the state is \<open>START_RECORD\<close> again and returns the fields; when the lines run out it
  returns a last record if a field is pending or a quoted field is open, and stops
  otherwise. The first argument is the parser within the current record.
\<close>

fun reader_rows :: "reader \<Rightarrow> string list \<Rightarrow> py_exn + string list list" where
  "reader_rows r [] =
     (if length (field r) \<noteq> 0 \<or> state r = IN_QUOTED_FIELD
      then Inr [record_fields (parse_save_field r)]
      else Inr [])"
| "reader_rows r (l # ls) =
     (case process_line r l of
        Inl e \<Rightarrow> Inl e
      | Inr r' \<Rightarrow>
          if state r' \<noteq> START_RECORD then reader_rows r' ls
          else
            (case reader_rows parse_reset ls of
               Inl e \<Rightarrow> Inl e
             | Inr rows \<Rightarrow> Inr (record_fields r' # rows)))"

text \<open>The body of the \<^verbatim>\<open>with open(csv_path, "r")\<close> block up to \<^verbatim>\<open>rows = list(reader)\<close>.\<close>

definition read_rows :: "filesystem \<Rightarrow> path \<Rightarrow> py_exn + string list list" where
  "read_rows fs p =
     (case fs p of
        Absent \<Rightarrow> Inl OSError
      | Inaccessible \<Rightarrow> Inl OSError
      | Unreadable \<Rightarrow> Inl OSError
      | Undecodable \<Rightarrow> Inl UnicodeDecodeError
      | Text content \<Rightarrow> reader_rows parse_reset (file_lines [] content))"

section \<open>verify\_bundle.py\<close>

subsection \<open>load\_yaml\_config\<close>


subsection \<open>verify\_manifest\<close>


subsection \<open>verify\_csv\_files\<close>

text \<open>\<^verbatim>\<open>actual_count != row_count\<close>, the left side being an integer.\<close>

definition count_differs :: "int \<Rightarrow> pyval \<Rightarrow> bool" where
  "count_differs actual_count row_count = (\<not> py_eq (VInt actual_count) row_count)"

text \<open>Lines 72 to 80, the body of the \<^verbatim>\<open>try\<close> block: the file is read, the rows are
  counted and compared, and the count is printed. Each step can raise.\<close>

definition count_and_report :: "printer \<Rightarrow> filesystem \<Rightarrow> path \<Rightarrow> pyval \<Rightarrow> pyval \<Rightarrow> unit run" where
  "count_and_report out fs csv_path db_key row_count =
     bnd (lift (read_rows fs csv_path)) (\<lambda>rows.
       (let actual_count = int (length rows) - 1 in
        bnd (if count_differs actual_count row_count
             then try_print out (RowCountMismatch db_key row_count actual_count)
             else ret ()) (\<lambda>_.
        try_print out (CsvVerified db_key actual_count))))"

text \<open>The body of the loop over the items; it returns the new \<open>all_valid\<close>. The test
  \<^verbatim>\<open>csv_path.exists()\<close> stands before the \<^verbatim>\<open>try\<close> block: where it raises, the
  function raises.\<close>

definition verify_item :: "printer \<Rightarrow> filesystem \<Rightarrow> path \<Rightarrow> pyval \<Rightarrow> bool \<Rightarrow> bool run" where
  "verify_item out fs pkg_dir item all_valid =
     bnd (lift (py_get item ''db_key'' (VStr ''unknown''))) (\<lambda>db_key.
     bnd (lift (py_get item ''output'' (VStr []))) (\<lambda>output_path.
     bnd (lift (py_get item ''row_count'' (VInt 0))) (\<lambda>row_count.
     bnd (lift (path_join pkg_dir output_path)) (\<lambda>csv_path.
       if fs csv_path = Inaccessible then throw OSError
       else if fs csv_path = Absent then say (CsvNotFound csv_path) (ret False)
       else
         except_Exception
           (bnd (count_and_report out fs csv_path db_key row_count) (\<lambda>_. ret all_valid))
           (\<lambda>e. say (CsvReadError csv_path e) (ret False))))))"

fun verify_items :: "printer \<Rightarrow> filesystem \<Rightarrow> path \<Rightarrow> pyval list \<Rightarrow> bool \<Rightarrow> bool run" where
  "verify_items out fs pkg_dir [] all_valid = ret all_valid"
| "verify_items out fs pkg_dir (item # items) all_valid =
     bnd (verify_item out fs pkg_dir item all_valid) (verify_items out fs pkg_dir items)"

definition verify_csv_files :: "printer \<Rightarrow> filesystem \<Rightarrow> pyval \<Rightarrow> path \<Rightarrow> bool run" where
  "verify_csv_files out fs manifest pkg_dir =
     bnd (lift (py_get manifest ''items'' (VList []))) (\<lambda>items.
       if \<not> truthy items then say NoItems (ret False)
       else bnd (lift (py_iter items)) (\<lambda>xs. verify_items out fs pkg_dir xs True))"

subsection \<open>verify\_chittyid\_compliance\<close>


subsection \<open>verify\_schema\_version\<close>

definition verify_schema_version :: "pyval \<Rightarrow> pyval \<Rightarrow> bool run" where
  "verify_schema_version manifest expected_version =
     bnd (lift (py_get manifest ''schema_version'' VNone)) (\<lambda>actual_version.
       if \<not> truthy actual_version then say NoSchemaVersion (ret False)
       else if \<not> py_eq actual_version expected_version
         then say (SchemaMismatch actual_version expected_version) (ret False)
       else say (SchemaVersionOk actual_version) (ret True))"

subsection \<open>main\<close>

text \<open>
  \<^verbatim>\<open>sys.exit(n)\<close> raises \<open>SystemExit n\<close>; \<open>main\<close> always ends by raising. The status
  the process ends with is that number, and 1 when any other exception is left
  uncaught. \<open>Banner\<close> stands for the three opening prints, \<open>AllPassed\<close> and
  \<open>SomeFailed\<close> for the closing ones.
\<close>





section \<open>preflight.py\<close>

subsection \<open>check\_notion\_token\<close>

text \<open>\<^verbatim>\<open>os.getenv("NOTION_TOKEN")\<close> is \<open>None\<close> when the variable is not set.\<close>

definition check_notion_token :: "string option \<Rightarrow> bool run" where
  "check_notion_token token =
     (case token of
        None \<Rightarrow> say TokenNotSet (ret False)
      | Some t \<Rightarrow>
          if t = [] then say TokenNotSet (ret False)
          else if length t < 20 then say TokenTooShort (ret False)
          else say TokenSet (ret True))"

subsection \<open>check\_bundle\_config\<close>









section \<open>The notions the properties are stated with\<close>

subsection \<open>Shapes of the documents\<close>



text \<open>The value of a field of a mapping, or the default.\<close>

definition field_of :: "pyval \<Rightarrow> string \<Rightarrow> pyval \<Rightarrow> pyval" where
  "field_of item k d = (case py_get item k d of Inr v \<Rightarrow> v | Inl e \<Rightarrow> d)"

subsection \<open>Items and their files\<close>

text \<open>
  The file an item references: the package directory joined with the item's
  \<open>output\<close>, the empty string when the item has none. An item that is no mapping, or
  whose \<open>output\<close> is no string, references no file.
\<close>

definition item_file :: "path \<Rightarrow> pyval \<Rightarrow> path option" where
  "item_file pkg_dir item =
     (case item of
        VDict kvs \<Rightarrow>
          (case map_of kvs ''output'' of
             None \<Rightarrow> Some (Join pkg_dir [])
           | Some (VStr s) \<Rightarrow> Some (Join pkg_dir s)
           | Some _ \<Rightarrow> None)
      | _ \<Rightarrow> None)"

text \<open>
  The records of a file, as the csv reader yields them for its text: none when the path
  holds no text file, or when the reader rejects the text.
\<close>

definition file_rows :: "filesystem \<Rightarrow> path \<Rightarrow> string list list option" where
  "file_rows fs p =
     (case fs p of
        Text content \<Rightarrow>
          (case reader_rows parse_reset (file_lines [] content) of
             Inr rows \<Rightarrow> Some rows
           | Inl e \<Rightarrow> None)
      | _ \<Rightarrow> None)"

text \<open>The exception reading raises for a file that is there and has no records.\<close>

definition read_failure :: "filesystem \<Rightarrow> path \<Rightarrow> py_exn" where
  "read_failure fs p =
     (case fs p of
        Undecodable \<Rightarrow> UnicodeDecodeError
      | Text content \<Rightarrow> CsvError
      | _ \<Rightarrow> OSError)"

text \<open>The item's file exists and is read without error.\<close>

definition item_ok :: "filesystem \<Rightarrow> path \<Rightarrow> pyval \<Rightarrow> bool" where
  "item_ok fs pkg_dir item =
     (case item_file pkg_dir item of
        None \<Rightarrow> False
      | Some p \<Rightarrow> file_rows fs p \<noteq> None)"

text \<open>The item references a file, and the file system can tell whether it is there.\<close>

definition looked_up :: "filesystem \<Rightarrow> path \<Rightarrow> pyval \<Rightarrow> bool" where
  "looked_up fs pkg_dir item =
     (case item_file pkg_dir item of None \<Rightarrow> False | Some p \<Rightarrow> fs p \<noteq> Inaccessible)"

definition references_missing :: "filesystem \<Rightarrow> path \<Rightarrow> pyval \<Rightarrow> bool" where
  "references_missing fs pkg_dir item =
     (case item_file pkg_dir item of None \<Rightarrow> False | Some p \<Rightarrow> fs p = Absent)"

text \<open>The manifest's sequence of items, when \<open>items\<close> is a list (absent: the empty one).\<close>

definition items_of :: "pyval \<Rightarrow> pyval list option" where
  "items_of manifest =
     (case py_get manifest ''items'' (VList []) of
        Inr (VList xs) \<Rightarrow> Some xs
      | _ \<Rightarrow> None)"

text \<open>Every message of a list is printed without an exception.\<close>

definition prints :: "printer \<Rightarrow> msg list \<Rightarrow> bool" where
  "prints out ms = list_all (\<lambda>m. out m = None) ms"

text \<open>What the check prints for an item whose file was read: the warning when the
  count differs from the recorded one, then the count.\<close>

definition counted_report :: "pyval \<Rightarrow> int \<Rightarrow> msg list" where
  "counted_report item n =
     (if count_differs n (field_of item ''row_count'' (VInt 0))
      then [RowCountMismatch (field_of item ''db_key'' (VStr ''unknown''))
              (field_of item ''row_count'' (VInt 0)) n]
      else []) @
     [CsvVerified (field_of item ''db_key'' (VStr ''unknown'')) n]"

text \<open>The messages of a list that are printed before the first one whose \<^verbatim>\<open>print\<close>
  raises, and the exception it raises.\<close>

fun printed_until_refused :: "printer \<Rightarrow> msg list \<Rightarrow> msg list \<times> py_exn option" where
  "printed_until_refused out [] = ([], None)"
| "printed_until_refused out (m # ms) =
     (case out m of
        Some e \<Rightarrow> ([], Some e)
      | None \<Rightarrow> (m # fst (printed_until_refused out ms), snd (printed_until_refused out ms)))"

text \<open>
  How the check ends for an item whose file \<open>p\<close> was read and has \<open>n\<close> rows. When the
  lines of the report are printed, \<open>all_valid\<close> is left as it was. When the \<^verbatim>\<open>print\<close> of
  one of them raises, the item fails with that exception reported as a read error of
  \<open>p\<close> (an exception that is no \<^verbatim>\<open>Exception\<close> ends the check).
\<close>

definition counted_run :: "printer \<Rightarrow> path \<Rightarrow> pyval \<Rightarrow> int \<Rightarrow> bool \<Rightarrow> bool run" where
  "counted_run out p item n all_valid =
     (case snd (printed_until_refused out (counted_report item n)) of
        None \<Rightarrow> (counted_report item n, Inr all_valid)
      | Some e \<Rightarrow>
          if is_exception e
          then (fst (printed_until_refused out (counted_report item n)) @ [CsvReadError p e],
                Inr False)
          else (fst (printed_until_refused out (counted_report item n)), Inl e))"

text \<open>What the check prints for one item, taken alone, when every \<^verbatim>\<open>print\<close> succeeds.\<close>

definition item_report :: "filesystem \<Rightarrow> path \<Rightarrow> pyval \<Rightarrow> msg list" where
  "item_report fs pkg_dir item =
     (case item_file pkg_dir item of
        None \<Rightarrow> []
      | Some p \<Rightarrow>
          if fs p = Absent then [CsvNotFound p]
          else if fs p = Inaccessible then []
          else
            (case file_rows fs p of
               None \<Rightarrow> [CsvReadError p (read_failure fs p)]
             | Some rows \<Rightarrow> counted_report item (int (length rows) - 1)))"

text \<open>The reader is outside a quoted field.\<close>

definition unquoted :: "reader \<Rightarrow> bool" where
  "unquoted r = (state r \<noteq> IN_QUOTED_FIELD \<and> state r \<noteq> QUOTE_IN_QUOTED_FIELD)"

subsection \<open>A package directory to try the checks on\<close>

text \<open>
  Items of a bundle \<open>governance\<close>: a file of a header and two rows (recorded as five),
  a file of a header and one row whose quoted field runs over two lines, a file that
  cannot be read, a file that is not there, and a file whose name, of 300 characters,
  is longer than the 255 the file system takes: it is not there, and asking for it is
  an error.
\<close>

fun name_too_long :: "path \<Rightarrow> bool" where
  "name_too_long (Path s) = False"
| "name_too_long (Join d n) = (255 < length n \<or> name_too_long d)"

definition overlong_name :: string where
  "overlong_name = replicate 300 (CHR ''a'')"

definition csv_two_rows :: string where
  "csv_two_rows = ''id,name'' @ [LF] @ ''1,a'' @ [LF] @ ''2,b'' @ [LF]"

definition csv_quoted_newline :: string where
  "csv_quoted_newline =
     ''id,note'' @ [LF] @ ''1,'' @ [quotechar] @ ''two'' @ [LF] @ ''lines'' @ [quotechar, LF]"

definition example_pkg :: path where
  "example_pkg = Join (Path ''packages'') ''governance''"

definition example_fs :: filesystem where
  "example_fs p =
     (if name_too_long p then Inaccessible
      else if p = Join example_pkg ''policies.csv'' then Text csv_two_rows
      else if p = Join example_pkg ''notes.csv'' then Text csv_quoted_newline
      else if p = Join example_pkg ''locked.csv'' then Unreadable
      else Absent)"

definition item_policies :: pyval where
  "item_policies =
     VDict [(''db_key'', VStr ''policies''), (''output'', VStr ''policies.csv''),
            (''row_count'', VInt 5)]"

definition item_notes :: pyval where
  "item_notes =
     VDict [(''db_key'', VStr ''notes''), (''output'', VStr ''notes.csv''),
            (''row_count'', VInt 1)]"

definition item_locked :: pyval where
  "item_locked =
     VDict [(''db_key'', VStr ''locked''), (''output'', VStr ''locked.csv''),
            (''row_count'', VInt 3)]"

definition item_missing :: pyval where
  "item_missing =
     VDict [(''db_key'', VStr ''missing''), (''output'', VStr ''missing.csv''),
            (''row_count'', VInt 3)]"

definition item_overlong :: pyval where
  "item_overlong =
     VDict [(''db_key'', VStr ''archive''), (''output'', VStr overlong_name),
            (''row_count'', VInt 0)]"

text \<open>
  A string that standard output cannot encode. JSON writes a lone surrogate
  \<^verbatim>\<open>"\ud800"\<close>, and \<^verbatim>\<open>json.load\<close> returns it as a string of one character. The
  characters of the model are the 256 of \<^typ>\<open>char\<close>; the last of them is taken to
  stand for that surrogate. An item whose \<open>db_key\<close> is that string, for the file of
  two rows.
\<close>

definition surrogate :: char where
  "surrogate = CHR 0xFF"

definition lone_surrogate :: string where
  "lone_surrogate = [surrogate]"

definition item_unprintable :: pyval where
  "item_unprintable =
     VDict [(''db_key'', VStr lone_surrogate), (''output'', VStr ''policies.csv''),
            (''row_count'', VInt 2)]"

text \<open>
  Two printers. The first prints everything. The second is Python's default: standard
  output encodes to UTF-8 and raises \<^verbatim>\<open>UnicodeEncodeError\<close> on a surrogate; standard
  error escapes what it cannot encode. Of the two prints of the \<^verbatim>\<open>try\<close> block, the
  warning goes to standard error, and the count goes to standard output and formats
  the \<open>db_key\<close> (a string as it is, any other value by its \<^verbatim>\<open>repr\<close>, which escapes).
\<close>

definition prints_all :: printer where
  "prints_all m = None"

fun unencodable :: "pyval \<Rightarrow> bool" where
  "unencodable (VStr s) = (surrogate \<in> set s)"
| "unencodable v = False"

definition stdout_utf8 :: printer where
  "stdout_utf8 m =
     (case m of
        CsvVerified db_key n \<Rightarrow> if unencodable db_key then Some UnicodeEncodeError else None
      | _ \<Rightarrow> None)"

subsection \<open>Loading the manifest\<close>





subsection \<open>Bundles and their databases\<close>

text \<open>A database entry whose \<open>notion_url\<close> starts with the marker; one whose
  \<open>notion_url\<close> is absent or the empty string; one the check can read (a mapping whose
  \<open>notion_url\<close>, when there is one, is a string).\<close>

definition is_todo :: "pyval \<Rightarrow> bool" where
  "is_todo db =
     (case field_of db ''notion_url'' (VStr []) of
        VStr u \<Rightarrow> prefix ''TODO:'' u
      | _ \<Rightarrow> False)"




definition db_report :: "pyval \<Rightarrow> msg" where
  "db_report db =
     (if is_todo db
      then PlaceholderUrl (field_of db ''key'' (VStr ''unknown''))
             (field_of db ''notion_url'' (VStr []))
      else UrlConfigured (field_of db ''key'' (VStr ''unknown'')))"








subsection \<open>The configuration\<close>











text \<open>The placeholder warnings of a log, and the counts its summaries report.\<close>

fun is_placeholder :: "msg \<Rightarrow> bool" where
  "is_placeholder (PlaceholderUrl k u) = True"
| "is_placeholder _ = False"

fun todo_counts :: "msg list \<Rightarrow> nat list" where
  "todo_counts [] = []"
| "todo_counts (TodoSummary n # ms) = n # todo_counts ms"
| "todo_counts (m # ms) = todo_counts ms"

subsection \<open>A configuration to try the checks on\<close>




















section \<open>Running the combinators\<close>

lemma bnd_ret [simp]: "bnd (ret x) f = f x"
  by (simp add: bnd_def ret_def)

lemma bnd_throw [simp]: "bnd (throw e) f = throw e"
  by (simp add: bnd_def throw_def)

lemma bnd_lift_Inr [simp]: "bnd (lift (Inr x)) f = f x"
  by (simp add: bnd_def lift_def)

lemma bnd_lift_Inl [simp]: "bnd (lift (Inl e)) f = throw e"
  by (simp add: bnd_def lift_def throw_def)

lemma bnd_pair_Inr [simp]: "bnd (l, Inr x) f = (l @ fst (f x), snd (f x))"
  by (simp add: bnd_def)

lemma bnd_pair_Inl [simp]: "bnd (l, Inl e) f = (l, Inl e)"
  by (simp add: bnd_def)

lemma say_pair [simp]: "say m (l, r) = (m # l, r)"
  by (simp add: say_def bnd_def emit_def)

lemma say_ret [simp]: "say m (ret x) = ([m], Inr x)"
  by (simp add: ret_def)

lemma say_throw [simp]: "say m (throw e) = ([m], Inl e)"
  by (simp add: throw_def)

lemma fst_ret [simp]: "fst (ret x) = []"
  by (simp add: ret_def)

lemma snd_ret [simp]: "snd (ret x) = Inr x"
  by (simp add: ret_def)

lemma fst_throw [simp]: "fst (throw e) = []"
  by (simp add: throw_def)

lemma snd_throw [simp]: "snd (throw e) = Inl e"
  by (simp add: throw_def)

lemma try_print_accepted [simp]: "out m = None \<Longrightarrow> try_print out m = ([m], Inr ())"
  by (simp add: try_print_def emit_def)

lemma try_print_refused [simp]: "out m = Some e \<Longrightarrow> try_print out m = ([], Inl e)"
  by (simp add: try_print_def throw_def)

lemma except_Exception_returned [simp]: "except_Exception (l, Inr x) handler = (l, Inr x)"
  by (simp add: except_Exception_def)

lemma except_Exception_raised [simp]:
  "is_exception e \<Longrightarrow>
   except_Exception (l, Inl e) handler = (l @ fst (handler e), snd (handler e))"
  by (simp add: except_Exception_def)

lemma bnd_ret_right [simp]: "bnd m ret = m"
  by (cases m) (simp add: bnd_def ret_def split: sum.splits)


lemma snd_say [simp]: "snd (say m k) = snd k"
  by (cases k) simp

lemma snd_lift [simp]: "snd (lift r) = r"
  by (simp add: lift_def)
section \<open>The csv reader outside quoted fields\<close>

lemma parse_add_char_state:
  "parse_add_char r c = Inr r' \<Longrightarrow> state r' = state r"
  by (auto simp: parse_add_char_def split: if_splits)

lemma parse_save_field_state [simp]: "state (parse_save_field r) = state r"
  by (simp add: parse_save_field_def)

lemma char_step_unquoted:
  assumes "parse_process_char r (Some c) = Inr r'" "unquoted r" "c \<noteq> quotechar"
  shows "unquoted r'"
  using assms
  by (cases "state r")
     (auto simp: parse_process_char_def unquoted_def start_field_def end_of_record_def
           add_char_to_def split: if_splits sum.splits dest: parse_add_char_state)

lemma eol_step_unquoted:
  assumes "parse_process_char r None = Inr r'" "unquoted r"
  shows "state r' = START_RECORD"
  using assms
  by (cases "state r")
     (auto simp: parse_process_char_def unquoted_def start_field_def end_of_record_def)

lemma process_line_unquoted:
  "process_line r l = Inr r' \<Longrightarrow> unquoted r \<Longrightarrow> quotechar \<notin> set l \<Longrightarrow> state r' = START_RECORD"
proof (induction l arbitrary: r)
  case Nil
  then show ?case using eol_step_unquoted by simp
next
  case (Cons c cs)
  from Cons.prems(1) obtain r1 where
    step: "parse_process_char r (Some c) = Inr r1" and rest: "process_line r1 cs = Inr r'"
    by (cases "parse_process_char r (Some c)") simp_all
  from Cons.prems have "c \<noteq> quotechar" by auto
  with step Cons.prems(2) have "unquoted r1" by (rule char_step_unquoted)
  moreover from Cons.prems(3) have "quotechar \<notin> set cs" by simp
  ultimately show ?case using rest by (rule Cons.IH [rotated])
qed

lemma unquoted_parse_reset [simp]: "unquoted parse_reset"
  by (simp add: unquoted_def parse_reset_def)

lemma reader_rows_unquoted:
  "reader_rows parse_reset ls = Inr rows \<Longrightarrow> list_all (\<lambda>l. quotechar \<notin> set l) ls \<Longrightarrow>
   length rows = length ls"
proof (induction ls arbitrary: rows)
  case Nil
  then show ?case by (simp add: parse_reset_def)
next
  case (Cons l ls)
  from Cons.prems(1) obtain r' where line: "process_line parse_reset l = Inr r'"
    by (cases "process_line parse_reset l") simp_all
  from Cons.prems(2) have "quotechar \<notin> set l" by simp
  with line have st: "state r' = START_RECORD"
    using process_line_unquoted unquoted_parse_reset by blast
  with Cons.prems(1) line obtain rows' where
    rest: "reader_rows parse_reset ls = Inr rows'" and rows: "rows = record_fields r' # rows'"
    by (cases "reader_rows parse_reset ls") auto
  from Cons.prems(2) have "list_all (\<lambda>l. quotechar \<notin> set l) ls" by simp
  with rest have "length rows' = length ls" by (rule Cons.IH)
  with rows show ?case by simp
qed

lemma quotechar_not_LF [simp]: "quotechar \<noteq> LF"
  by (simp add: quotechar_def LF_def)

lemma file_lines_unquoted:
  "quotechar \<notin> set cur \<Longrightarrow> quotechar \<notin> set content \<Longrightarrow>
   list_all (\<lambda>l. quotechar \<notin> set l) (file_lines cur content)"
  by (induction cur content rule: file_lines.induct) auto

lemma read_rows_unquoted:
  "fs p = Text content \<Longrightarrow> read_rows fs p = Inr rows \<Longrightarrow> quotechar \<notin> set content \<Longrightarrow>
   length rows = length (file_lines [] content)"
  by (auto simp: read_rows_def intro!: reader_rows_unquoted file_lines_unquoted)

section \<open>The errors of the csv reader\<close>

lemma parse_add_char_error: "parse_add_char r c = Inl e \<Longrightarrow> e = CsvError"
  by (auto simp: parse_add_char_def split: if_splits)

lemma parse_process_char_error: "parse_process_char r c = Inl e \<Longrightarrow> e = CsvError"
  by (cases "state r")
     (auto simp: parse_process_char_def start_field_def add_char_to_def
           split: option.splits if_splits sum.splits dest: parse_add_char_error)

lemma process_line_error: "process_line r l = Inl e \<Longrightarrow> e = CsvError"
proof (induction l arbitrary: r)
  case Nil
  then show ?case by (simp add: parse_process_char_error)
next
  case (Cons c cs)
  show ?case
  proof (cases "parse_process_char r (Some c)")
    case (Inl e')
    with Cons.prems show ?thesis by (simp add: parse_process_char_error)
  next
    case (Inr r')
    with Cons.prems have "process_line r' cs = Inl e" by simp
    then show ?thesis by (rule Cons.IH)
  qed
qed

lemma reader_rows_error: "reader_rows r ls = Inl e \<Longrightarrow> e = CsvError"
proof (induction ls arbitrary: r)
  case Nil
  then show ?case by (simp split: if_splits)
next
  case (Cons l ls)
  show ?case
  proof (cases "process_line r l")
    case (Inl e')
    with Cons.prems show ?thesis by (simp add: process_line_error)
  next
    case (Inr r')
    show ?thesis
    proof (cases "state r' = START_RECORD")
      case True
      with Inr Cons.prems have "reader_rows parse_reset ls = Inl e"
        by (cases "reader_rows parse_reset ls") simp_all
      then show ?thesis by (rule Cons.IH)
    next
      case False
      with Inr Cons.prems have "reader_rows r' ls = Inl e" by simp
      then show ?thesis by (rule Cons.IH)
    qed
  qed
qed

section \<open>The loop over the items\<close>

lemma read_rows_readable:
  "file_rows fs p = Some rows \<Longrightarrow> read_rows fs p = Inr rows"
  by (auto simp: file_rows_def read_rows_def split: fs_entry.splits sum.splits)

lemma read_rows_failure:
  "file_rows fs p = None \<Longrightarrow> read_rows fs p = Inl (read_failure fs p)"
  by (auto simp: file_rows_def read_rows_def read_failure_def
      split: fs_entry.splits sum.splits dest: reader_rows_error)

lemma read_failure_is_exception [simp]: "is_exception (read_failure fs p)"
  by (simp add: read_failure_def split: fs_entry.splits)

lemma try_block_counted:
  "read_rows fs p = Inr rows \<Longrightarrow>
   except_Exception
     (bnd (count_and_report out fs p (field_of item ''db_key'' (VStr ''unknown''))
             (field_of item ''row_count'' (VInt 0))) (\<lambda>_. ret b))
     (\<lambda>e. ([CsvReadError p e], Inr False)) =
   counted_run out p item (int (length rows) - 1) b"
  by (cases "out (RowCountMismatch (field_of item ''db_key'' (VStr ''unknown''))
                (field_of item ''row_count'' (VInt 0)) (int (length rows) - 1))";
      cases "out (CsvVerified (field_of item ''db_key'' (VStr ''unknown''))
                (int (length rows) - 1))")
     (auto simp: count_and_report_def counted_run_def counted_report_def Let_def
        except_Exception_def throw_def)

lemma try_block_failed:
  "read_rows fs p = Inl e \<Longrightarrow> is_exception e \<Longrightarrow>
   except_Exception
     (bnd (count_and_report out fs p k rc) (\<lambda>_. ret b))
     (\<lambda>e. ([CsvReadError p e], Inr False)) =
   ([CsvReadError p e], Inr False)"
  by (simp add: count_and_report_def throw_def)

lemma verify_item_dict:
  "item_file pkg_dir item = Some p \<Longrightarrow>
   verify_item out fs pkg_dir item b =
     (if fs p = Inaccessible then throw OSError
      else if fs p = Absent then ([CsvNotFound p], Inr False)
      else except_Exception
        (bnd (count_and_report out fs p (field_of item ''db_key'' (VStr ''unknown''))
                (field_of item ''row_count'' (VInt 0))) (\<lambda>_. ret b))
        (\<lambda>e. say (CsvReadError p e) (ret False)))"
  unfolding verify_item_def item_file_def field_of_def
  by (auto split: pyval.splits option.splits)

lemma verify_item_counted:
  assumes "item_file pkg_dir item = Some p" and "file_rows fs p = Some rows"
  shows "verify_item out fs pkg_dir item b = counted_run out p item (int (length rows) - 1) b"
proof -
  from assms(2) have "fs p \<noteq> Inaccessible" "fs p \<noteq> Absent"
    by (auto simp: file_rows_def)
  then show ?thesis
    by (simp add: verify_item_dict [OF assms(1)] try_block_counted [OF read_rows_readable [OF assms(2)]])
qed

lemma counted_run_prints:
  "prints out (counted_report item n) \<Longrightarrow>
   counted_run out p item n b = (counted_report item n, Inr b)"
  by (auto simp: prints_def counted_run_def counted_report_def)

lemma verify_item_looked_up:
  assumes "looked_up fs pkg_dir item" and "prints out (item_report fs pkg_dir item)"
  shows "verify_item out fs pkg_dir item b =
           (item_report fs pkg_dir item, Inr (b \<and> item_ok fs pkg_dir item))"
proof -
  from assms(1) obtain p where p: "item_file pkg_dir item = Some p" and acc: "fs p \<noteq> Inaccessible"
    by (auto simp: looked_up_def split: option.splits)
  show ?thesis
  proof (cases "fs p = Absent")
    case True
    then show ?thesis
      by (simp add: verify_item_dict [OF p] item_report_def item_ok_def p file_rows_def)
  next
    case False
    show ?thesis
    proof (cases "file_rows fs p")
      case None
      from acc False show ?thesis
        by (simp add: verify_item_dict [OF p] try_block_failed [OF read_rows_failure [OF None]]
            item_report_def item_ok_def p None)
    next
      case (Some rows)
      from assms(2) acc False have "prints out (counted_report item (int (length rows) - 1))"
        by (simp add: item_report_def p Some)
      then show ?thesis
        using acc False
        by (simp add: verify_item_counted [OF p Some] counted_run_prints item_report_def
            item_ok_def p Some)
    qed
  qed
qed

lemma verify_items_looked_up:
  "list_all (looked_up fs pkg_dir) xs \<Longrightarrow>
   list_all (\<lambda>i. prints out (item_report fs pkg_dir i)) xs \<Longrightarrow>
   verify_items out fs pkg_dir xs b =
     (concat (map (item_report fs pkg_dir) xs), Inr (b \<and> list_all (item_ok fs pkg_dir) xs))"
proof (induction xs arbitrary: b)
  case Nil
  then show ?case by (simp add: ret_def)
next
  case (Cons x xs)
  then have x: "looked_up fs pkg_dir x" "prints out (item_report fs pkg_dir x)"
    and rest: "list_all (looked_up fs pkg_dir) xs"
      "list_all (\<lambda>i. prints out (item_report fs pkg_dir i)) xs"
    by simp_all
  show ?case
    by (simp add: verify_item_looked_up [OF x] Cons.IH [OF rest] conj_ac)
qed

lemma verify_items_nil [simp]: "verify_items out fs pkg_dir [] = ret"
  by (rule ext) simp

lemma prints_all_prints [simp]: "prints prints_all ms"
  by (simp add: prints_def prints_all_def list_all_iff)

lemma verify_csv_files_items:
  "items_of manifest = Some xs \<Longrightarrow> xs \<noteq> [] \<Longrightarrow>
   verify_csv_files out fs manifest pkg_dir = verify_items out fs pkg_dir xs True"
  by (auto simp: items_of_def verify_csv_files_def split: sum.splits pyval.splits)

section \<open>The example package directory, evaluated\<close>

lemmas csv_eval =
  parse_process_char_def start_field_def end_of_record_def add_char_to_def
  parse_add_char_def parse_save_field_def parse_reset_def field_limit_def
  delimiter_def quotechar_def LF_def CR_def

lemma fs_policies: "example_fs (Join example_pkg ''policies.csv'') = Text csv_two_rows"
  by (simp add: example_fs_def example_pkg_def)

lemma fs_notes: "example_fs (Join example_pkg ''notes.csv'') = Text csv_quoted_newline"
  by (simp add: example_fs_def example_pkg_def)

lemma fs_locked: "example_fs (Join example_pkg ''locked.csv'') = Unreadable"
  by (simp add: example_fs_def example_pkg_def)

lemma fs_missing: "example_fs (Join example_pkg ''missing.csv'') = Absent"
  by (simp add: example_fs_def example_pkg_def)

lemma lines_quoted_newline: "length (file_lines [] csv_quoted_newline) = 3"
  by (simp add: csv_quoted_newline_def quotechar_def LF_def CR_def)

lemma fs_overlong: "example_fs (Join example_pkg overlong_name) = Inaccessible"
  by (simp add: example_fs_def overlong_name_def)

lemma rows_policies:
  "file_rows example_fs (Join example_pkg ''policies.csv'') =
     Some [[''id'', ''name''], [''1'', ''a''], [''2'', ''b'']]"
  by (simp add: file_rows_def fs_policies csv_two_rows_def csv_eval)

lemma rows_notes:
  "file_rows example_fs (Join example_pkg ''notes.csv'') =
     Some [[''id'', ''note''], [''1'', ''two'' @ [LF] @ ''lines'']]"
  by (simp add: file_rows_def fs_notes csv_quoted_newline_def csv_eval)

lemma rows_locked: "file_rows example_fs (Join example_pkg ''locked.csv'') = None"
  by (simp add: file_rows_def fs_locked)

lemma failure_locked: "read_failure example_fs (Join example_pkg ''locked.csv'') = OSError"
  by (simp add: read_failure_def fs_locked)

lemmas read_policies = read_rows_readable [OF rows_policies]

lemma file_policies: "item_file example_pkg item_policies = Some (Join example_pkg ''policies.csv'')"
  by (simp add: item_file_def item_policies_def)

lemma file_notes: "item_file example_pkg item_notes = Some (Join example_pkg ''notes.csv'')"
  by (simp add: item_file_def item_notes_def)

lemma file_locked: "item_file example_pkg item_locked = Some (Join example_pkg ''locked.csv'')"
  by (simp add: item_file_def item_locked_def)

lemma file_missing: "item_file example_pkg item_missing = Some (Join example_pkg ''missing.csv'')"
  by (simp add: item_file_def item_missing_def)

lemma file_overlong: "item_file example_pkg item_overlong = Some (Join example_pkg overlong_name)"
  by (simp add: item_file_def item_overlong_def)

lemma file_unprintable:
  "item_file example_pkg item_unprintable = Some (Join example_pkg ''policies.csv'')"
  by (simp add: item_file_def item_unprintable_def)

lemma counted_unprintable:
  "counted_report item_unprintable 2 = [CsvVerified (VStr lone_surrogate) 2]"
  by (simp add: counted_report_def field_of_def count_differs_def item_unprintable_def)

lemma refused_unprintable:
  "stdout_utf8 (CsvVerified (VStr lone_surrogate) 2) = Some UnicodeEncodeError"
  by (simp add: stdout_utf8_def lone_surrogate_def)

lemma counted_policies:
  "counted_report item_policies 2 =
     [RowCountMismatch (VStr ''policies'') (VInt 5) 2, CsvVerified (VStr ''policies'') 2]"
  by (simp add: counted_report_def field_of_def count_differs_def item_policies_def)

lemma counted_notes: "counted_report item_notes 1 = [CsvVerified (VStr ''notes'') 1]"
  by (simp add: counted_report_def field_of_def count_differs_def item_notes_def)

lemma report_policies:
  "item_report example_fs example_pkg item_policies =
     [RowCountMismatch (VStr ''policies'') (VInt 5) 2, CsvVerified (VStr ''policies'') 2]"
  by (simp add: item_report_def file_policies fs_policies rows_policies counted_policies)

lemma report_notes:
  "item_report example_fs example_pkg item_notes = [CsvVerified (VStr ''notes'') 1]"
  by (simp add: item_report_def file_notes fs_notes rows_notes counted_notes)

lemma report_locked:
  "item_report example_fs example_pkg item_locked =
     [CsvReadError (Join example_pkg ''locked.csv'') OSError]"
  by (simp add: item_report_def file_locked fs_locked rows_locked failure_locked)

lemma report_missing:
  "item_report example_fs example_pkg item_missing =
     [CsvNotFound (Join example_pkg ''missing.csv'')]"
  by (simp add: item_report_def file_missing fs_missing)



lemma not_ok_missing: "\<not> item_ok example_fs example_pkg item_missing"
  by (simp add: item_ok_def file_missing file_rows_def fs_missing)

lemma looked_up_policies: "looked_up example_fs example_pkg item_policies"
  by (simp add: looked_up_def file_policies fs_policies)

lemma looked_up_notes: "looked_up example_fs example_pkg item_notes"
  by (simp add: looked_up_def file_notes fs_notes)

lemma looked_up_locked: "looked_up example_fs example_pkg item_locked"
  by (simp add: looked_up_def file_locked fs_locked)

lemma looked_up_missing: "looked_up example_fs example_pkg item_missing"
  by (simp add: looked_up_def file_missing fs_missing)

section \<open>The identifier check returns true or raises\<close>




section \<open>The loops of the bundle-configuration check\<close>

















lemma is_placeholder_db_report [simp]: "is_placeholder (db_report db) = is_todo db"
  by (simp add: db_report_def)






lemma todo_counts_append [simp]: "todo_counts (xs @ ys) = todo_counts xs @ todo_counts ys"
  by (induction xs rule: todo_counts.induct) simp_all

lemma todo_counts_db_reports [simp]: "todo_counts (map db_report dbs) = []"
  by (induction dbs) (simp_all add: db_report_def)























section \<open>Loading the manifest of the example\<close>

















section \<open>The checks on the example manifests\<close>










section \<open>The properties\<close>

subsection \<open>The data-file check\<close>

text \<open>
  Claim C1 says that the data-file check returns true if and only if the items sequence
  is non-empty and every item's file exists and is read without error. The function's
  docstring says the same (it verifies that the files exist and are readable), and its
  handler reports a read error. The \<^verbatim>\<open>print\<close> of the count stands inside the \<^verbatim>\<open>try\<close>
  block, though: for an item whose \<open>db_key\<close> holds a lone surrogate, the file of two
  rows exists and is read (three records), the \<^verbatim>\<open>print\<close> raises \<^verbatim>\<open>UnicodeEncodeError\<close>
  on standard output, the handler reports it as an error reading the file, and the
  check returns false. With a printer that prints everything the same manifest passes.
\<close>

theorem unprintable_key_fails_readable_file:
  "item_file example_pkg item_unprintable = Some (Join example_pkg ''policies.csv'') \<and>
   file_rows example_fs (Join example_pkg ''policies.csv'') =
     Some [[''id'', ''name''], [''1'', ''a''], [''2'', ''b'']] \<and>
   item_ok example_fs example_pkg item_unprintable \<and>
   verify_csv_files stdout_utf8 example_fs (VDict [(''items'', VList [item_unprintable])])
     example_pkg =
     ([CsvReadError (Join example_pkg ''policies.csv'') UnicodeEncodeError], Inr False) \<and>
   verify_csv_files prints_all example_fs (VDict [(''items'', VList [item_unprintable])])
     example_pkg =
     ([CsvVerified (VStr lone_surrogate) 2], Inr True)"
proof -
  have i: "items_of (VDict [(''items'', VList [item_unprintable])]) = Some [item_unprintable]"
    by (simp add: items_of_def)
  have run: "verify_csv_files out example_fs (VDict [(''items'', VList [item_unprintable])])
      example_pkg =
      counted_run out (Join example_pkg ''policies.csv'') item_unprintable 2 True" for out
    using verify_item_counted [OF file_unprintable rows_policies, of out True]
    by (simp add: verify_csv_files_items [OF i])
  have refused: "counted_run stdout_utf8 (Join example_pkg ''policies.csv'') item_unprintable 2
      True = ([CsvReadError (Join example_pkg ''policies.csv'') UnicodeEncodeError], Inr False)"
    by (simp add: counted_run_def counted_unprintable refused_unprintable)
  have printed: "counted_run prints_all (Join example_pkg ''policies.csv'') item_unprintable 2
      True = ([CsvVerified (VStr lone_surrogate) 2], Inr True)"
    by (simp add: counted_run_prints counted_unprintable)
  show ?thesis
    by (simp add: file_unprintable rows_policies item_ok_def run refused printed)
qed

text \<open>
  Claim C3, as stated: the count computed for a readable file is the number of its lines
  minus one. It is not: the file \<open>notes.csv\<close> has three lines, and the check counts one
  row, because the quoted field of its second record runs over two lines (the recorded
  count of one matches, and no warning is printed).
\<close>

theorem row_count_is_not_line_count:
  "example_fs (Join example_pkg ''notes.csv'') = Text csv_quoted_newline \<and>
   verify_item prints_all example_fs example_pkg item_notes True =
     ([CsvVerified (VStr ''notes'') 1], Inr True) \<and>
   int (length (file_lines [] csv_quoted_newline)) - 1 = 2"
  using verify_item_counted [OF file_notes rows_notes, of prints_all True]
  by (simp add: fs_notes counted_run_prints counted_notes lines_quoted_newline)

text \<open>
  Claim C3, amended. For every item whose file exists and is read without error, the
  count the check computes, prints and compares with the item's \<open>row_count\<close> is the
  number of records the csv reader yields for the file, minus one for the header; the
  warning is printed exactly when that count differs from the recorded one, and
  \<open>all_valid\<close> is left as it was (when one of the two prints raises, the item ends as
  \<open>counted_run\<close> says). When the file holds no quote character, the number of records is
  the number of lines, and the count is the number of lines minus one.
\<close>

theorem counted_rows_are_csv_records:
  assumes "item_file pkg_dir item = Some p" and "fs p = Text content"
    and "read_rows fs p = Inr rows"
  shows "verify_item out fs pkg_dir item b =
           counted_run out p item (int (length rows) - 1) b \<and>
         (prints out (counted_report item (int (length rows) - 1)) \<longrightarrow>
            verify_item out fs pkg_dir item b =
              (counted_report item (int (length rows) - 1), Inr b)) \<and>
         reader_rows parse_reset (file_lines [] content) = Inr rows \<and>
         (quotechar \<notin> set content \<longrightarrow>
            int (length rows) - 1 = int (length (file_lines [] content)) - 1)"
proof -
  from assms(2,3) have rows: "reader_rows parse_reset (file_lines [] content) = Inr rows"
    by (simp add: read_rows_def)
  with assms(2) have "file_rows fs p = Some rows"
    by (simp add: file_rows_def)
  from verify_item_counted [OF assms(1) this]
  have run: "verify_item out fs pkg_dir item b =
      counted_run out p item (int (length rows) - 1) b" .
  moreover have "verify_item out fs pkg_dir item b =
      (counted_report item (int (length rows) - 1), Inr b)"
    if "prints out (counted_report item (int (length rows) - 1))"
    using that by (simp add: run counted_run_prints)
  moreover have "quotechar \<notin> set content \<longrightarrow>
      int (length rows) - 1 = int (length (file_lines [] content)) - 1"
    using read_rows_unquoted [OF assms(2) assms(3)] by simp
  ultimately show ?thesis using rows by blast
qed

theorem counted_rows_are_csv_records_witness:
  "item_file example_pkg item_policies = Some (Join example_pkg ''policies.csv'') \<and>
   example_fs (Join example_pkg ''policies.csv'') = Text csv_two_rows \<and>
   quotechar \<notin> set csv_two_rows \<and>
   verify_item prints_all example_fs example_pkg item_policies True =
     ([RowCountMismatch (VStr ''policies'') (VInt 5) 2, CsvVerified (VStr ''policies'') 2], Inr True) \<and>
   int (length (file_lines [] csv_two_rows)) - 1 = 2"
proof -
  have q: "quotechar \<notin> set csv_two_rows"
    by (simp add: csv_two_rows_def quotechar_def LF_def)
  from counted_rows_are_csv_records [OF file_policies fs_policies read_policies,
      of prints_all True]
    q counted_policies file_policies fs_policies
  show ?thesis by (simp add: counted_run_prints)
qed

text \<open>
  Claim C5, as stated: when an item references a file that does not exist, the check
  returns false, and every other item whose file exists is still opened, counted and
  reported. Four manifests show where it does not hold. \<open>locked.csv\<close> exists and cannot
  be read: what the check prints for it is the read error, with no count. The file of
  the over-long name does not exist, and the check raises on it: it returns nothing,
  and the item after it is not looked at. An item that is a string and not a mapping
  makes the check raise after the missing file is reported. And the count of an
  existing file that is read is not reported when its \<^verbatim>\<open>print\<close> raises.
\<close>

theorem existing_file_not_counted:
  "example_fs (Join example_pkg ''missing.csv'') = Absent \<and>
   example_fs (Join example_pkg ''locked.csv'') = Unreadable \<and>
   example_fs (Join example_pkg overlong_name) = Inaccessible \<and>
   verify_csv_files prints_all example_fs
     (VDict [(''items'', VList [item_missing, item_locked])]) example_pkg =
     ([CsvNotFound (Join example_pkg ''missing.csv''),
       CsvReadError (Join example_pkg ''locked.csv'') OSError], Inr False) \<and>
   verify_csv_files prints_all example_fs
     (VDict [(''items'', VList [item_overlong, item_policies])]) example_pkg =
     ([], Inl OSError) \<and>
   verify_csv_files prints_all example_fs
     (VDict [(''items'', VList [item_missing, VStr ''notes.csv''])]) example_pkg =
     ([CsvNotFound (Join example_pkg ''missing.csv'')], Inl AttributeError) \<and>
   verify_csv_files stdout_utf8 example_fs
     (VDict [(''items'', VList [item_missing, item_unprintable])]) example_pkg =
     ([CsvNotFound (Join example_pkg ''missing.csv''),
       CsvReadError (Join example_pkg ''policies.csv'') UnicodeEncodeError], Inr False)"
proof -
  have l: "list_all (looked_up example_fs example_pkg) [item_missing, item_locked]"
    by (simp add: looked_up_missing looked_up_locked)
  have p: "list_all (\<lambda>i. prints prints_all (item_report example_fs example_pkg i))
      [item_missing, item_locked]"
    by simp
  have a: "verify_csv_files prints_all example_fs
      (VDict [(''items'', VList [item_missing, item_locked])]) example_pkg =
      ([CsvNotFound (Join example_pkg ''missing.csv''),
        CsvReadError (Join example_pkg ''locked.csv'') OSError], Inr False)"
    using verify_items_looked_up [OF l p, of True]
    by (simp add: verify_csv_files_def report_missing report_locked not_ok_missing
        del: verify_items.simps)
  have b: "verify_csv_files prints_all example_fs
      (VDict [(''items'', VList [item_overlong, item_policies])]) example_pkg = ([], Inl OSError)"
    by (simp add: verify_csv_files_def verify_item_dict [OF file_overlong] fs_overlong throw_def)
  have c: "verify_csv_files prints_all example_fs
      (VDict [(''items'', VList [item_missing, VStr ''notes.csv''])]) example_pkg =
      ([CsvNotFound (Join example_pkg ''missing.csv'')], Inl AttributeError)"
    by (simp add: verify_csv_files_def verify_item_dict [OF file_missing] fs_missing)
       (simp add: verify_item_def throw_def)
  have d: "verify_csv_files stdout_utf8 example_fs
      (VDict [(''items'', VList [item_missing, item_unprintable])]) example_pkg =
      ([CsvNotFound (Join example_pkg ''missing.csv''),
        CsvReadError (Join example_pkg ''policies.csv'') UnicodeEncodeError], Inr False)"
    using verify_item_counted [OF file_unprintable rows_policies, of stdout_utf8 False]
    by (simp add: verify_csv_files_def verify_item_dict [OF file_missing] fs_missing
        counted_run_def counted_unprintable refused_unprintable)
  from a b c d show ?thesis
    by (simp only: fs_missing fs_locked fs_overlong simp_thms)
qed

text \<open>
  Claim C5, amended. For every manifest whose items are mappings that reference paths
  the file system can look up, in which at least one item references a file that does
  not exist, and in every run in which the prints succeed: the data-file check returns
  false, and what it prints is, item after item, what it prints for each item taken
  alone: the missing-file failure for a file that does not exist, the count (after the
  warning when it differs from the recorded one) for a file that is read, the read
  error for a file that exists and cannot be read. No item is skipped because another
  one's file is missing.
\<close>

theorem missing_file_fails_without_abort:
  assumes "items_of manifest = Some xs"
    and "list_all (looked_up fs pkg_dir) xs"
    and "list_all (\<lambda>i. prints out (item_report fs pkg_dir i)) xs"
    and "list_ex (references_missing fs pkg_dir) xs"
  shows "verify_csv_files out fs manifest pkg_dir =
           (concat (map (item_report fs pkg_dir) xs), Inr False)"
proof -
  from assms(4) obtain i where i: "i \<in> set xs" "references_missing fs pkg_dir i"
    by (auto simp: list_ex_iff)
  then have "\<not> item_ok fs pkg_dir i"
    by (auto simp: references_missing_def item_ok_def file_rows_def split: option.splits)
  with i have bad: "\<not> list_all (item_ok fs pkg_dir) xs"
    by (auto simp: list_all_iff)
  from i have ne: "xs \<noteq> []" by auto
  from bad show ?thesis
    by (simp add: verify_csv_files_items [OF assms(1) ne] verify_items_looked_up [OF assms(2,3)])
qed

theorem missing_file_fails_without_abort_witness:
  "items_of (VDict [(''items'', VList [item_policies, item_missing, item_notes])]) =
     Some [item_policies, item_missing, item_notes] \<and>
   references_missing example_fs example_pkg item_missing \<and>
   verify_csv_files prints_all example_fs
     (VDict [(''items'', VList [item_policies, item_missing, item_notes])]) example_pkg =
     ([RowCountMismatch (VStr ''policies'') (VInt 5) 2, CsvVerified (VStr ''policies'') 2,
       CsvNotFound (Join example_pkg ''missing.csv''),
       CsvVerified (VStr ''notes'') 1], Inr False)"
proof -
  have a: "items_of (VDict [(''items'', VList [item_policies, item_missing, item_notes])]) =
     Some [item_policies, item_missing, item_notes]"
    by (simp add: items_of_def)
  have b: "list_all (looked_up example_fs example_pkg) [item_policies, item_missing, item_notes]"
    by (simp add: looked_up_policies looked_up_missing looked_up_notes)
  have p: "list_all (\<lambda>i. prints prints_all (item_report example_fs example_pkg i))
      [item_policies, item_missing, item_notes]"
    by simp
  have d: "references_missing example_fs example_pkg item_missing"
    by (simp add: references_missing_def file_missing fs_missing)
  then have c: "list_ex (references_missing example_fs example_pkg)
             [item_policies, item_missing, item_notes]"
    by simp
  from missing_file_fails_without_abort [OF a b p c] a d show ?thesis
    by (simp add: report_policies report_missing report_notes)
qed

subsection \<open>Loading the manifest\<close>




subsection \<open>The schema-version check\<close>




text \<open>
  Claim C10. If the manifest's \<open>schema_version\<close> is present and holds a false value (the
  empty string, zero, \<open>None\<close>, \<open>False\<close>, an empty list or mapping), the check takes the
  branch of the missing version: it prints that no version is in the manifest, nothing
  that names the two versions, and returns false.
\<close>

theorem falsy_schema_version_is_missing:
  "map_of kvs ''schema_version'' = Some v \<Longrightarrow> \<not> truthy v \<Longrightarrow>
   verify_schema_version (VDict kvs) expected_version = ([NoSchemaVersion], Inr False)"
  by (simp add: verify_schema_version_def)

theorem falsy_schema_version_is_missing_witness:
  "map_of [(''schema_version'', VStr [])] ''schema_version'' = Some (VStr []) \<and>
   \<not> truthy (VStr []) \<and>
   verify_schema_version (VDict [(''schema_version'', VStr [])]) (VStr ''1.0.0'') =
     ([NoSchemaVersion], Inr False)"
  using falsy_schema_version_is_missing
    [of "[(''schema_version'', VStr [])]" "VStr []" "VStr ''1.0.0''"]
  by simp

subsection \<open>The identifier check\<close>




section \<open>The preflight checks\<close>

text \<open>
  Claim C7. The credential check returns false when \<open>NOTION_TOKEN\<close> is not set, and for
  a value \<open>t\<close> it returns whether \<open>t\<close> has 20 characters or more: false below 20 (the
  empty value included), true from 20 on.
\<close>

theorem credential_check_length:
  "snd (check_notion_token None) = Inr False \<and>
   snd (check_notion_token (Some t)) = Inr (20 \<le> length t)"
  by (auto simp: check_notion_token_def)

theorem credential_check_length_witness:
  "snd (check_notion_token (Some ''secret_0123456789abcdefghijklmno'')) = Inr True \<and>
   snd (check_notion_token (Some ''secret_0123456789ab'')) = Inr False \<and>
   snd (check_notion_token (Some [])) = Inr False"
  using credential_check_length [of "''secret_0123456789abcdefghijklmno''"]
    credential_check_length [of "''secret_0123456789ab''"]
    credential_check_length [of "[]"]
  by simp







end
